theory Spec2Isabelle
  imports Complex_Main "HOL-Library.Sublist"
begin

section \<open>Data model of \<open>scripts/build_rfm.py\<close>\<close>

text \<open>
  The script works on pandas data frames. A frame is modelled as its list of column labels
  and its list of rows, every row holding one cell per label. A cell is a missing value,
  a number, a text or a time stamp.

  Numbers are the float64 values without rounding: a rational, one of the two infinities,
  or NaN. Rounding, underflow and the int64/float64 distinction are not modelled. Time
  stamps are nanoseconds since the epoch, as pandas stores them, without the bound of
  the int64 range.
\<close>

datatype number = Fin rat | PInf | MInf | NaN

datatype cell = NA | NumV number | StrV string | TimeV int

record table =
  columns :: "string list"
  rows :: "cell list list"

text \<open>
  Three conversions belong to pandas and Python, not to the script. They are parameters of
  the model, and only reached for cells whose conversion the script's own calls do not fix:
  \<^item> \<open>parse_date col c\<close>: the result of \<open>pd.to_datetime(col, errors="coerce", dayfirst=True)\<close>
    at a text or numeric cell \<open>c\<close> of the column \<open>col\<close> (\<open>None\<close> is NaT);
  \<^item> \<open>repr_str c\<close>: \<open>str\<close> of a cell that is not a text;
  \<^item> \<open>parse_int c\<close>: \<open>int\<close> of a cell that is not a number (\<open>None\<close> is a raised error).
\<close>

record lib =
  parse_date :: "cell list \<Rightarrow> cell \<Rightarrow> int option"
  repr_str :: "cell \<Rightarrow> string"
  parse_int :: "cell \<Rightarrow> int option"

text \<open>
  The errors the two functions can end with. \<open>MissingColumns missing found\<close> is the
  \<open>ValueError\<close> of line 44 with the two values its message prints. \<open>TypeError\<close> is raised by
  the comparison of line 58 on a text or a time stamp, \<open>CastError\<close> by \<open>astype(int)\<close> on a
  value that has no integer, \<open>KeyError\<close> by the selection of an absent column.
  \<open>DtypeError\<close> marks a frame given to \<open>build_rfm\<close> whose columns do not hold the kinds of
  cells that \<open>clean_transactions\<close> produces.
\<close>

datatype error =
    MissingColumns "string set" "string list"
  | TypeError
  | CastError
  | KeyError string
  | DtypeError

subsection \<open>Numbers\<close>

fun num_gt0 :: "number \<Rightarrow> bool" where
  "num_gt0 (Fin q) = (0 < q)"
| "num_gt0 PInf = True"
| "num_gt0 MInf = False"
| "num_gt0 NaN = False"

fun num_lt0 :: "number \<Rightarrow> bool" where
  "num_lt0 (Fin q) = (q < 0)"
| "num_lt0 PInf = False"
| "num_lt0 MInf = True"
| "num_lt0 NaN = False"

fun num_mul :: "number \<Rightarrow> number \<Rightarrow> number" where
  "num_mul NaN y = NaN"
| "num_mul x NaN = NaN"
| "num_mul (Fin a) (Fin b) = Fin (a * b)"
| "num_mul x y =
     (if (num_gt0 x \<and> num_gt0 y) \<or> (num_lt0 x \<and> num_lt0 y) then PInf
      else if (num_gt0 x \<and> num_lt0 y) \<or> (num_lt0 x \<and> num_gt0 y) then MInf
      else NaN)"

fun num_add :: "number \<Rightarrow> number \<Rightarrow> number" where
  "num_add NaN y = NaN"
| "num_add x NaN = NaN"
| "num_add (Fin a) (Fin b) = Fin (a + b)"
| "num_add PInf MInf = NaN"
| "num_add MInf PInf = NaN"
| "num_add PInf y = PInf"
| "num_add x PInf = PInf"
| "num_add MInf y = MInf"
| "num_add x MInf = MInf"

definition trunc :: "rat \<Rightarrow> int" where
  "trunc q = (if 0 \<le> q then \<lfloor>q\<rfloor> else \<lceil>q\<rceil>)"

subsection \<open>Cells and frames\<close>

definition isna :: "cell \<Rightarrow> bool" where
  "isna c = (c = NA \<or> c = NumV NaN)"

fun index_of :: "string \<Rightarrow> string list \<Rightarrow> nat option" where
  "index_of name [] = None"
| "index_of name (c # cs) =
     (if c = name then Some 0 else map_option Suc (index_of name cs))"

definition cell_at :: "cell list \<Rightarrow> nat \<Rightarrow> cell" where
  "cell_at r i = (if i < length r then r ! i else NA)"

definition get_cell :: "string list \<Rightarrow> string \<Rightarrow> cell list \<Rightarrow> cell" where
  "get_cell cols name r = (case index_of name cols of None \<Rightarrow> NA | Some i \<Rightarrow> cell_at r i)"

definition column :: "table \<Rightarrow> string \<Rightarrow> cell list" where
  "column df name = map (get_cell (columns df) name) (rows df)"

text \<open>\<open>df[name] = f(row)\<close>: an existing column is overwritten, a new one is appended.\<close>

definition with_col :: "string list \<Rightarrow> string \<Rightarrow> string list" where
  "with_col cols name = (if name \<in> set cols then cols else cols @ [name])"

definition set_cell :: "string list \<Rightarrow> string \<Rightarrow> cell \<Rightarrow> cell list \<Rightarrow> cell list" where
  "set_cell cols name v r = (case index_of name cols of Some i \<Rightarrow> r[i := v] | None \<Rightarrow> r @ [v])"

definition assign :: "string \<Rightarrow> (cell list \<Rightarrow> cell) \<Rightarrow> table \<Rightarrow> table" where
  "assign name f df =
     \<lparr>columns = with_col (columns df) name,
      rows = map (\<lambda>r. set_cell (columns df) name (f r) r) (rows df)\<rparr>"

definition select :: "(cell list \<Rightarrow> bool) \<Rightarrow> table \<Rightarrow> table" where
  "select keep df = df\<lparr>rows := filter keep (rows df)\<rparr>"

definition dropna :: "string \<Rightarrow> table \<Rightarrow> table" where
  "dropna name df = select (\<lambda>r. \<not> isna (get_cell (columns df) name r)) df"

section \<open>\<open>clean_transactions\<close>\<close>

subsection \<open>Column labels (lines 24 to 44)\<close>

text \<open>
  \<open>str.strip()\<close> removes the white space of Python at both ends; the characters are read
  as code points below 256.
\<close>

definition whitespace :: "char list" where
  "whitespace = [CHR 0x20, CHR 0x09, CHR 0x0A, CHR 0x0B, CHR 0x0C, CHR 0x0D,
                 CHR 0x1C, CHR 0x1D, CHR 0x1E, CHR 0x1F, CHR 0x85, CHR 0xA0]"

definition strip :: "string \<Rightarrow> string" where
  "strip s = rev (dropWhile (\<lambda>c. c \<in> set whitespace) (rev (dropWhile (\<lambda>c. c \<in> set whitespace) s)))"

definition rename_map :: "(string \<times> string) list" where
  "rename_map =
     [(''Invoice'', ''InvoiceNo''), (''InvoiceNo'', ''InvoiceNo''),
      (''Customer ID'', ''CustomerID''), (''CustomerID'', ''CustomerID''),
      (''Price'', ''UnitPrice''), (''UnitPrice'', ''UnitPrice''),
      (''InvoiceDate'', ''InvoiceDate''), (''Quantity'', ''Quantity'')]"

definition rename :: "string \<Rightarrow> string" where
  "rename c = (case map_of rename_map c of Some c' \<Rightarrow> c' | None \<Rightarrow> c)"

definition required_cols :: "string set" where
  "required_cols = {''InvoiceNo'', ''InvoiceDate'', ''CustomerID'', ''Quantity'', ''UnitPrice''}"

subsection \<open>Cell conversions (lines 50 to 64)\<close>

definition to_datetime :: "lib \<Rightarrow> cell list \<Rightarrow> cell \<Rightarrow> cell" where
  "to_datetime l col c =
     (case c of
        NA \<Rightarrow> NA
      | NumV NaN \<Rightarrow> NA
      | TimeV t \<Rightarrow> TimeV t
      | _ \<Rightarrow> (case parse_date l col c of None \<Rightarrow> NA | Some t \<Rightarrow> TimeV t))"

definition astype_str :: "lib \<Rightarrow> cell \<Rightarrow> string" where
  "astype_str l c = (case c of StrV s \<Rightarrow> s | _ \<Rightarrow> repr_str l c)"

definition startswith_C :: "string \<Rightarrow> bool" where
  "startswith_C s = (case s of [] \<Rightarrow> False | c # _ \<Rightarrow> c = CHR ''C'')"

definition is_cancel :: "cell \<Rightarrow> bool" where
  "is_cancel c = (case c of StrV s \<Rightarrow> startswith_C s | _ \<Rightarrow> False)"

text \<open>\<open>x > 0\<close> on a cell: false on a missing value, an error on a text or a time stamp.\<close>

definition gt_zero :: "cell \<Rightarrow> error + bool" where
  "gt_zero c =
     (case c of
        NA \<Rightarrow> Inr False
      | NumV n \<Rightarrow> Inr (num_gt0 n)
      | _ \<Rightarrow> Inl TypeError)"

definition astype_int :: "lib \<Rightarrow> cell \<Rightarrow> error + cell" where
  "astype_int l c =
     (case c of
        NumV (Fin q) \<Rightarrow> Inr (NumV (Fin (of_int (trunc q))))
      | NumV _ \<Rightarrow> Inl CastError
      | NA \<Rightarrow> Inl CastError
      | _ \<Rightarrow> (case parse_int l c of None \<Rightarrow> Inl CastError | Some k \<Rightarrow> Inr (NumV (Fin (of_int k)))))"

text \<open>
  \<open>Quantity * UnitPrice\<close>: line 64 is reached with two numbers in every row, the other
  cases cannot occur there and give a missing value.
\<close>

definition cell_mul :: "cell \<Rightarrow> cell \<Rightarrow> cell" where
  "cell_mul a b = (case (a, b) of (NumV x, NumV y) \<Rightarrow> NumV (num_mul x y) | _ \<Rightarrow> NA)"

definition is_Inl :: "'a + 'b \<Rightarrow> bool" where
  "is_Inl x = (case x of Inl _ \<Rightarrow> True | Inr _ \<Rightarrow> False)"

subsection \<open>The stages\<close>

text \<open>Line 58: both comparisons are evaluated on every row before the rows are selected.\<close>

definition sign_filter :: "table \<Rightarrow> error + table" where
  "sign_filter df =
     (if \<exists>r \<in> set (rows df).
           is_Inl (gt_zero (get_cell (columns df) ''Quantity'' r)) \<or>
           is_Inl (gt_zero (get_cell (columns df) ''UnitPrice'' r))
      then Inl TypeError
      else Inr (select (\<lambda>r. gt_zero (get_cell (columns df) ''Quantity'' r) = Inr True \<and>
                             gt_zero (get_cell (columns df) ''UnitPrice'' r) = Inr True) df))"

text \<open>Line 61: the cast fails as a whole when one cell has no integer.\<close>

definition cast_customer :: "lib \<Rightarrow> table \<Rightarrow> error + table" where
  "cast_customer l df =
     (if \<exists>r \<in> set (rows df). is_Inl (astype_int l (get_cell (columns df) ''CustomerID'' r))
      then Inl CastError
      else Inr (assign ''CustomerID''
                  (\<lambda>r. case astype_int l (get_cell (columns df) ''CustomerID'' r) of
                          Inr c \<Rightarrow> c | Inl _ \<Rightarrow> NA) df))"

text \<open>Lines 46 to 55, on the renamed frame: the three selections that cannot fail.\<close>

definition drop_unusable :: "lib \<Rightarrow> table \<Rightarrow> table" where
  "drop_unusable l df =
     (let df1 = dropna ''CustomerID'' df;
          dates = column df1 ''InvoiceDate'';
          df2 = assign ''InvoiceDate''
                  (\<lambda>r. to_datetime l dates (get_cell (columns df1) ''InvoiceDate'' r)) df1;
          df3 = dropna ''InvoiceDate'' df2;
          df4 = assign ''InvoiceNo''
                  (\<lambda>r. StrV (astype_str l (get_cell (columns df3) ''InvoiceNo'' r))) df3
      in select (\<lambda>r. \<not> is_cancel (get_cell (columns df4) ''InvoiceNo'' r)) df4)"

text \<open>Lines 46 to 66.\<close>

definition clean_rows :: "lib \<Rightarrow> table \<Rightarrow> error + table" where
  "clean_rows l df =
     (case sign_filter (drop_unusable l df) of
        Inl e \<Rightarrow> Inl e
      | Inr df6 \<Rightarrow>
          (case cast_customer l df6 of
             Inl e \<Rightarrow> Inl e
           | Inr df7 \<Rightarrow>
               Inr (assign ''TotalPrice''
                      (\<lambda>r. cell_mul (get_cell (columns df7) ''Quantity'' r)
                                     (get_cell (columns df7) ''UnitPrice'' r)) df7)))"

text \<open>
  The whole function. Line 24 assigns the stripped labels to the frame the caller passed;
  line 39 binds \<open>df\<close> to a new frame, and every later step works on that one. The first
  component of the result is the caller's frame after the call, the second what the call
  returns or raises.
\<close>

definition clean_transactions :: "lib \<Rightarrow> table \<Rightarrow> table \<times> (error + table)" where
  "clean_transactions l df_in =
     (let df0 = df_in\<lparr>columns := map strip (columns df_in)\<rparr>;
          df = df0\<lparr>columns := map rename (columns df0)\<rparr>;
          missing = required_cols - set (columns df)
      in (df0, if missing \<noteq> {} then Inl (MissingColumns missing (columns df))
               else clean_rows l df))"

section \<open>\<open>build_rfm\<close>\<close>

record rfm_row =
  CustomerID :: rat
  Recency :: "int option"
  Frequency :: nat
  Monetary :: number

text \<open>One day, \<open>pd.Timedelta(days=1)\<close>, in nanoseconds.\<close>

definition day :: int where
  "day = 86400000000000"

fun times :: "cell list \<Rightarrow> int list" where
  "times [] = []"
| "times (TimeV t # cs) = t # times cs"
| "times (c # cs) = times cs"

text \<open>\<open>Series.max()\<close> of a column of time stamps: missing values are skipped, NaT when none is left.\<close>

definition max_time :: "cell list \<Rightarrow> int option" where
  "max_time cs = (case times cs of [] \<Rightarrow> None | t # ts \<Rightarrow> Some (fold max ts t))"

text \<open>Line 71.\<close>

definition snapshot_date :: "table \<Rightarrow> int option" where
  "snapshot_date df = map_option (\<lambda>m. m + day) (max_time (column df ''InvoiceDate''))"

text \<open>
  \<open>groupby("CustomerID")\<close>: one group for each key that is not missing, the groups in
  ascending order of the key.
\<close>

definition key_of :: "cell \<Rightarrow> rat option" where
  "key_of c = (case c of NumV (Fin q) \<Rightarrow> Some q | _ \<Rightarrow> None)"

definition customer_keys :: "table \<Rightarrow> rat list" where
  "customer_keys df = sort (remdups (List.map_filter key_of (column df ''CustomerID'')))"

definition group_rows :: "table \<Rightarrow> rat \<Rightarrow> cell list list" where
  "group_rows df k =
     filter (\<lambda>r. key_of (get_cell (columns df) ''CustomerID'' r) = Some k) (rows df)"

text \<open>Line 76: \<open>(snapshot_date - x.max()).days\<close>, the whole days of the difference.\<close>

definition recency :: "int option \<Rightarrow> cell list \<Rightarrow> int option" where
  "recency snapshot dates =
     (case (snapshot, max_time dates) of
        (Some s, Some m) \<Rightarrow> Some ((s - m) div day)
      | _ \<Rightarrow> None)"

text \<open>Line 77: \<open>nunique\<close>, the number of distinct values that are not missing.\<close>

definition nunique :: "cell list \<Rightarrow> nat" where
  "nunique cs = length (remdups (filter (\<lambda>c. \<not> isna c) cs))"

text \<open>Line 78: \<open>sum\<close>, missing values skipped.\<close>

definition number_of :: "cell \<Rightarrow> number" where
  "number_of c = (case c of NumV n \<Rightarrow> n | _ \<Rightarrow> NaN)"

definition sum_numbers :: "cell list \<Rightarrow> number" where
  "sum_numbers cs = foldl num_add (Fin 0) (filter (\<lambda>n. n \<noteq> NaN) (map number_of cs))"

text \<open>Lines 73 to 81: one row for each group, from three columns of the group.\<close>

definition group_column :: "table \<Rightarrow> rat \<Rightarrow> string \<Rightarrow> cell list" where
  "group_column df k name = map (get_cell (columns df) name) (group_rows df k)"

definition group_measures :: "table \<Rightarrow> rat \<Rightarrow> rfm_row" where
  "group_measures df k =
     \<lparr>CustomerID = k,
      Recency = recency (snapshot_date df) (group_column df k ''InvoiceDate''),
      Frequency = nunique (group_column df k ''InvoiceNo''),
      Monetary = sum_numbers (group_column df k ''TotalPrice'')\<rparr>"

definition aggregate :: "table \<Rightarrow> rfm_row list" where
  "aggregate df = map (group_measures df) (customer_keys df)"

text \<open>Line 84: the infinities become missing values, then the rows with a missing value go.\<close>

definition replace_inf :: "rfm_row \<Rightarrow> rfm_row" where
  "replace_inf r = r\<lparr>Monetary := (case Monetary r of PInf \<Rightarrow> NaN | MInf \<Rightarrow> NaN | m \<Rightarrow> m)\<rparr>"

definition guard :: "rfm_row list \<Rightarrow> rfm_row list" where
  "guard rs = filter (\<lambda>r. Recency r \<noteq> None \<and> Monetary r \<noteq> NaN) (map replace_inf rs)"

text \<open>Line 87.\<close>

definition sanity :: "rfm_row list \<Rightarrow> rfm_row list" where
  "sanity rs =
     filter (\<lambda>r. 0 < Frequency r \<and> num_gt0 (Monetary r) \<and>
                 (case Recency r of None \<Rightarrow> False | Some d \<Rightarrow> 0 \<le> d)) rs"

text \<open>
  The kinds of cells the aggregation is modelled for: time stamps or missing values as
  dates, finite numbers or missing values as customers, numbers or missing values as totals.
\<close>

definition is_time :: "cell \<Rightarrow> bool" where
  "is_time c = (case c of TimeV _ \<Rightarrow> True | _ \<Rightarrow> False)"

definition is_number :: "cell \<Rightarrow> bool" where
  "is_number c = (case c of NumV _ \<Rightarrow> True | _ \<Rightarrow> False)"

definition dtypes_ok :: "table \<Rightarrow> bool" where
  "dtypes_ok df =
     ((\<forall>c \<in> set (column df ''InvoiceDate''). isna c \<or> is_time c) \<and>
      (\<forall>c \<in> set (column df ''CustomerID''). isna c \<or> key_of c \<noteq> None) \<and>
      (\<forall>c \<in> set (column df ''TotalPrice''). c = NA \<or> is_number c))"

definition build_rfm :: "table \<Rightarrow> error + rfm_row list" where
  "build_rfm df =
     (case filter (\<lambda>n. n \<notin> set (columns df))
             [''InvoiceDate'', ''CustomerID'', ''InvoiceNo'', ''TotalPrice''] of
        n # _ \<Rightarrow> Inl (KeyError n)
      | [] \<Rightarrow> if dtypes_ok df then Inr (sanity (guard (aggregate df))) else Inl DtypeError)"

section \<open>Frames and cleaned frames\<close>

text \<open>
  A frame is rectangular. The model follows pandas where no label occurs twice once the
  labels are stripped and renamed.
\<close>

definition rect :: "table \<Rightarrow> bool" where
  "rect df = (\<forall>r \<in> set (rows df). length r = length (columns df))"

definition well_formed :: "table \<Rightarrow> bool" where
  "well_formed df = (rect df \<and> distinct (map (rename \<circ> strip) (columns df)))"





text \<open>The rational of a finite number, for sums over finite cells.\<close>

definition finite_value :: "cell \<Rightarrow> rat" where
  "finite_value c = (case c of NumV (Fin q) \<Rightarrow> q | _ \<Rightarrow> 0)"

definition is_finite :: "cell \<Rightarrow> bool" where
  "is_finite c = (case c of NumV (Fin q) \<Rightarrow> True | _ \<Rightarrow> False)"


text \<open>A library under which no text and no number is a date, and no text an integer.\<close>

definition strict_lib :: lib where
  "strict_lib = \<lparr>parse_date = (\<lambda>col c. None), repr_str = (\<lambda>c. ''nan''), parse_int = (\<lambda>c. None)\<rparr>"

text \<open>
  Two labels name the same field when they agree up to surrounding white space, or when
  \<open>rename_map\<close> sends both to the same label.
\<close>

definition synonyms :: "string \<Rightarrow> string \<Rightarrow> bool" where
  "synonyms a b =
     (strip a = strip b \<or>
      (map_of rename_map (strip a) \<noteq> None \<and>
       map_of rename_map (strip a) = map_of rename_map (strip b)))"

section \<open>The stages of \<open>clean_transactions\<close>, read row by row\<close>

text \<open>
  Every stage of lines 46 to 66 either selects rows or overwrites one cell of every row.
  The four overwriting stages, on one row with the labels \<open>cs\<close>; \<open>ctx\<close> is the date column
  that \<open>to_datetime\<close> is given.
\<close>

definition parse_row :: "lib \<Rightarrow> cell list \<Rightarrow> string list \<Rightarrow> cell list \<Rightarrow> cell list" where
  "parse_row l ctx cs r =
     set_cell cs ''InvoiceDate'' (to_datetime l ctx (get_cell cs ''InvoiceDate'' r)) r"

definition text_row :: "lib \<Rightarrow> string list \<Rightarrow> cell list \<Rightarrow> cell list" where
  "text_row l cs r = set_cell cs ''InvoiceNo'' (StrV (astype_str l (get_cell cs ''InvoiceNo'' r))) r"

definition cast_row :: "lib \<Rightarrow> string list \<Rightarrow> cell list \<Rightarrow> cell list" where
  "cast_row l cs r =
     set_cell cs ''CustomerID''
       (case astype_int l (get_cell cs ''CustomerID'' r) of Inr c \<Rightarrow> c | Inl _ \<Rightarrow> NA) r"

definition total_row :: "string list \<Rightarrow> cell list \<Rightarrow> cell list" where
  "total_row cs r =
     set_cell cs ''TotalPrice''
       (cell_mul (get_cell cs ''Quantity'' r) (get_cell cs ''UnitPrice'' r)) r"

definition date_context :: "table \<Rightarrow> cell list" where
  "date_context df = column (dropna ''CustomerID'' df) ''InvoiceDate''"

definition staged :: "lib \<Rightarrow> cell list \<Rightarrow> string list \<Rightarrow> cell list \<Rightarrow> cell list" where
  "staged l ctx cs r = text_row l cs (parse_row l ctx cs r)"

text \<open>The rows that pass the four selections, and what becomes of such a row.\<close>

definition keep :: "lib \<Rightarrow> cell list \<Rightarrow> string list \<Rightarrow> cell list \<Rightarrow> bool" where
  "keep l ctx cs r =
     (\<not> isna (get_cell cs ''CustomerID'' r) \<and>
      \<not> isna (get_cell cs ''InvoiceDate'' (parse_row l ctx cs r)) \<and>
      \<not> is_cancel (get_cell cs ''InvoiceNo'' (staged l ctx cs r)) \<and>
      gt_zero (get_cell cs ''Quantity'' (staged l ctx cs r)) = Inr True \<and>
      gt_zero (get_cell cs ''UnitPrice'' (staged l ctx cs r)) = Inr True)"

definition finish :: "lib \<Rightarrow> cell list \<Rightarrow> string list \<Rightarrow> cell list \<Rightarrow> cell list" where
  "finish l ctx cs r = total_row cs (cast_row l cs (staged l ctx cs r))"

section \<open>The guard of lines 84 to 87, as one test\<close>

text \<open>A row of the aggregation with three finite measures inside their bounds.\<close>

definition good_measures :: "rfm_row \<Rightarrow> bool" where
  "good_measures r =
     (0 < Frequency r \<and>
      (case Monetary r of Fin m \<Rightarrow> 0 < m | _ \<Rightarrow> False) \<and>
      (case Recency r of None \<Rightarrow> False | Some d \<Rightarrow> 0 \<le> d))"

section \<open>Example frames\<close>

text \<open>
  The three rows of a sale of two lines and its cancellation, dated 2010-12-01, and the
  frame they are cleaned to.
\<close>

definition scenario_raw :: table where
  "scenario_raw =
     \<lparr>columns = [''InvoiceNo'', ''InvoiceDate'', ''CustomerID'', ''Quantity'', ''UnitPrice''],
      rows = [[StrV ''536365'', TimeV 1291161600000000000, NumV (Fin 17850), NumV (Fin 6),
               NumV (Fin (255 / 100))],
              [StrV ''536365'', TimeV 1291161600000000000, NumV (Fin 17850), NumV (Fin 6),
               NumV (Fin (275 / 100))],
              [StrV ''C536366'', TimeV 1291161600000000000, NumV (Fin 17850), NumV (Fin (- 6)),
               NumV (Fin (255 / 100))]]\<rparr>"

definition scenario_clean :: table where
  "scenario_clean =
     \<lparr>columns = [''InvoiceNo'', ''InvoiceDate'', ''CustomerID'', ''Quantity'', ''UnitPrice'',
                 ''TotalPrice''],
      rows = [[StrV ''536365'', TimeV 1291161600000000000, NumV (Fin 17850), NumV (Fin 6),
               NumV (Fin (255 / 100)), NumV (Fin (153 / 10))],
              [StrV ''536365'', TimeV 1291161600000000000, NumV (Fin 17850), NumV (Fin 6),
               NumV (Fin (275 / 100)), NumV (Fin (33 / 2))]]\<rparr>"

text \<open>
  A raw frame under the other spellings of the labels, with an invoice that starts with the
  lower-case letter and one that starts with the upper-case letter, and what it is cleaned to.
\<close>

definition lowercase_raw :: table where
  "lowercase_raw =
     \<lparr>columns = [''Invoice'', ''InvoiceDate'', ''Customer ID'', ''Quantity'', ''Price''],
      rows = [[StrV ''c536367'', TimeV 1291161600000000000, NumV (Fin 17850), NumV (Fin 6), NumV (Fin 2)],
              [StrV ''C536368'', TimeV 1291161600000000000, NumV (Fin 17850), NumV (Fin 6), NumV (Fin 2)]]\<rparr>"

definition lowercase_clean :: table where
  "lowercase_clean =
     \<lparr>columns = [''InvoiceNo'', ''InvoiceDate'', ''CustomerID'', ''Quantity'', ''UnitPrice'', ''TotalPrice''],
      rows = [[StrV ''c536367'', TimeV 1291161600000000000, NumV (Fin 17850), NumV (Fin 6), NumV (Fin 2),
               NumV (Fin 12)]]\<rparr>"


text \<open>
  A cleaned frame of two customers: the first with three lines under the invoices A, A and
  B, the second with the two lines of quantity 2 at 3.00 and quantity 1 at 5.00.
\<close>

definition example_clean :: table where
  "example_clean =
     \<lparr>columns = [''InvoiceNo'', ''InvoiceDate'', ''CustomerID'', ''Quantity'', ''UnitPrice'',
                 ''TotalPrice''],
      rows = [[StrV ''A'', TimeV 0, NumV (Fin 1), NumV (Fin 1), NumV (Fin 4), NumV (Fin 4)],
              [StrV ''A'', TimeV 0, NumV (Fin 1), NumV (Fin 2), NumV (Fin 1), NumV (Fin 2)],
              [StrV ''B'', TimeV 86400000000000, NumV (Fin 1), NumV (Fin 1), NumV (Fin 1),
               NumV (Fin 1)],
              [StrV ''D'', TimeV 259200000000000, NumV (Fin 2), NumV (Fin 2), NumV (Fin 3),
               NumV (Fin 6)],
              [StrV ''D'', TimeV 259200000000000, NumV (Fin 2), NumV (Fin 1), NumV (Fin 5),
               NumV (Fin 5)]]\<rparr>"

section \<open>Column labels and the schema error\<close>

lemma clean_rows_not_missing: "clean_rows l df \<noteq> Inl (MissingColumns m f)"
  by (auto simp: clean_rows_def sign_filter_def cast_customer_def split: sum.splits if_splits)

text \<open>
  Claim C5. \<open>clean_transactions\<close> ends with the error of line 44 exactly when one of the
  five required labels is absent after the labels are stripped and renamed. The error then
  carries the absent labels and the labels found, and it is the same whatever the rows and
  the conversions are: no row is looked at before it is raised.
\<close>

theorem schema_error_iff_missing:
  "((\<exists>m f. snd (clean_transactions l df) = Inl (MissingColumns m f)) \<longleftrightarrow>
      required_cols - set (map (rename \<circ> strip) (columns df)) \<noteq> {}) \<and>
   (required_cols - set (map (rename \<circ> strip) (columns df)) \<noteq> {} \<longrightarrow>
      (\<forall>l' rs. snd (clean_transactions l' (df\<lparr>rows := rs\<rparr>)) =
         Inl (MissingColumns (required_cols - set (map (rename \<circ> strip) (columns df)))
                (map (rename \<circ> strip) (columns df)))))"
  by (auto simp: clean_transactions_def Let_def clean_rows_not_missing)

theorem schema_error_iff_missing_witness:
  "snd (clean_transactions strict_lib
          \<lparr>columns = ['' Invoice'', ''InvoiceDate '', ''Qty''], rows = [[StrV ''536365'', NA, StrV ''x'']]\<rparr>) =
     Inl (MissingColumns {''CustomerID'', ''Quantity'', ''UnitPrice''}
            [''InvoiceNo'', ''InvoiceDate'', ''Qty''])"
  using schema_error_iff_missing [of strict_lib
          "\<lparr>columns = ['' Invoice'', ''InvoiceDate '', ''Qty''], rows = [[StrV ''536365'', NA, StrV ''x'']]\<rparr>"]
  by (auto simp: required_cols_def rename_def rename_map_def strip_def whitespace_def)

lemma synonyms_rename: "synonyms a b \<Longrightarrow> rename (strip a) = rename (strip b)"
  by (auto simp: synonyms_def rename_def split: option.splits)

lemma synonyms_labels:
  "list_all2 synonyms cs ds \<Longrightarrow> map (rename \<circ> strip) cs = map (rename \<circ> strip) ds"
  by (induction rule: list_all2_induct) (auto simp: synonyms_rename)

lemma snd_clean_transactions:
  "snd (clean_transactions l df) =
     (if required_cols - set (map (rename \<circ> strip) (columns df)) \<noteq> {}
      then Inl (MissingColumns (required_cols - set (map (rename \<circ> strip) (columns df)))
                  (map (rename \<circ> strip) (columns df)))
      else clean_rows l \<lparr>columns = map (rename \<circ> strip) (columns df), rows = rows df\<rparr>)"
  by (cases df) (simp add: clean_transactions_def Let_def image_image)

text \<open>
  Claim C7. Two frames with the same rows, whose labels differ position by position only in
  surrounding white space or in the choice among the spellings that \<open>rename_map\<close> sends to
  one label, are cleaned to the same result.
\<close>

theorem clean_synonym_equivalence:
  assumes "rows df1 = rows df2" and "list_all2 synonyms (columns df1) (columns df2)"
  shows "snd (clean_transactions l df1) = snd (clean_transactions l df2)"
proof -
  have "map (rename \<circ> strip) (columns df1) = map (rename \<circ> strip) (columns df2)"
    using assms(2) by (rule synonyms_labels)
  then show ?thesis
    unfolding snd_clean_transactions using assms(1) by simp
qed

theorem clean_synonym_equivalence_witness:
  "snd (clean_transactions strict_lib
          \<lparr>columns = [''Invoice'', ''InvoiceDate'', ''Customer ID'', ''Quantity'', '' Price ''],
           rows = [[StrV ''536365'', TimeV 0, NumV (Fin 17850), NumV (Fin 6), NumV (Fin 2)]]\<rparr>) =
   snd (clean_transactions strict_lib
          \<lparr>columns = [''InvoiceNo'', ''InvoiceDate'', ''CustomerID'', ''Quantity'', ''UnitPrice''],
           rows = [[StrV ''536365'', TimeV 0, NumV (Fin 17850), NumV (Fin 6), NumV (Fin 2)]]\<rparr>)"
  by (rule clean_synonym_equivalence)
     (simp_all add: synonyms_def rename_map_def strip_def whitespace_def)

text \<open>
  Claim C9, as amended. After the call the caller's frame has its rows and values unchanged
  and its labels stripped of surrounding white space; it is unchanged as a whole when no
  label had such white space.
\<close>

theorem clean_input_effect:
  "rows (fst (clean_transactions l df)) = rows df \<and>
   columns (fst (clean_transactions l df)) = map strip (columns df) \<and>
   ((\<forall>c \<in> set (columns df). strip c = c) \<longrightarrow> fst (clean_transactions l df) = df)"
  by (cases df) (simp add: clean_transactions_def Let_def map_idI)

theorem clean_input_effect_witness:
  "fst (clean_transactions strict_lib \<lparr>columns = [''InvoiceNo'', ''Quantity''], rows = [[NA, NA]]\<rparr>) =
     \<lparr>columns = [''InvoiceNo'', ''Quantity''], rows = [[NA, NA]]\<rparr>"
  using clean_input_effect [where l = strict_lib and df = "\<lparr>columns = [''InvoiceNo'', ''Quantity''], rows = [[NA, NA]]\<rparr>"]
  by (simp add: strip_def whitespace_def)

text \<open>
  Claim C9 as stated fails: line 24 replaces a label that ends with a blank in the frame
  that was passed in.
\<close>

theorem clean_mutates_labels_counterexample:
  "fst (clean_transactions strict_lib
          \<lparr>columns = [''InvoiceNo'', ''InvoiceDate'', ''CustomerID'', ''Quantity'', ''UnitPrice ''],
           rows = [[StrV ''536365'', TimeV 0, NumV (Fin 17850), NumV (Fin 6), NumV (Fin 2)]]\<rparr>) \<noteq>
     \<lparr>columns = [''InvoiceNo'', ''InvoiceDate'', ''CustomerID'', ''Quantity'', ''UnitPrice ''],
      rows = [[StrV ''536365'', TimeV 0, NumV (Fin 17850), NumV (Fin 6), NumV (Fin 2)]]\<rparr>"
  by (simp add: clean_transactions_def Let_def strip_def whitespace_def)

section \<open>Cells of a row\<close>

lemma index_of_SomeD: "index_of n cs = Some i \<Longrightarrow> i < length cs \<and> cs ! i = n"
  by (induction cs arbitrary: i) (auto split: if_splits)

lemma index_of_None_iff: "index_of n cs = None \<longleftrightarrow> n \<notin> set cs"
  by (induction cs) auto

lemma index_of_append_new: "n \<notin> set cs \<Longrightarrow> index_of n (cs @ [n]) = Some (length cs)"
  by (induction cs) auto

lemma index_of_append_old: "m \<in> set cs \<Longrightarrow> index_of m (cs @ ds) = index_of m cs"
  by (induction cs) auto

lemma index_of_append_none: "m \<notin> set cs \<Longrightarrow> m \<noteq> n \<Longrightarrow> index_of m (cs @ [n]) = None"
  by (induction cs) auto

lemma index_of_Some_mem: "index_of n cs = Some i \<Longrightarrow> n \<in> set cs"
  using index_of_None_iff [of n cs] by auto

lemma index_of_mem: "n \<in> set cs \<Longrightarrow> \<exists>i. index_of n cs = Some i"
  using index_of_None_iff [of n cs] by auto

lemma length_set_cell:
  "length r = length cs \<Longrightarrow> length (set_cell cs n v r) = length (with_col cs n)"
  by (auto simp: set_cell_def with_col_def index_of_None_iff
        dest: index_of_Some_mem split: option.splits)

lemma get_set_same:
  "length r = length cs \<Longrightarrow> get_cell (with_col cs n) n (set_cell cs n v r) = v"
proof (cases "index_of n cs")
  case None
  then have "n \<notin> set cs" by (simp add: index_of_None_iff)
  then show ?thesis if "length r = length cs"
    using that None
    by (simp add: get_cell_def set_cell_def with_col_def cell_at_def index_of_append_new
          nth_append)
next
  case (Some i)
  then have "n \<in> set cs" "i < length cs"
    by (auto dest: index_of_Some_mem index_of_SomeD)
  then show ?thesis if "length r = length cs"
    using that Some by (simp add: get_cell_def set_cell_def with_col_def cell_at_def)
qed

lemma get_set_other:
  assumes "length r = length cs" and "m \<noteq> n"
  shows "get_cell (with_col cs n) m (set_cell cs n v r) = get_cell cs m r"
proof (cases "index_of n cs")
  case None
  then have n: "n \<notin> set cs" by (simp add: index_of_None_iff)
  show ?thesis
  proof (cases "index_of m cs")
    case None
    then have "index_of m (cs @ [n]) = None"
      using assms(2) by (simp add: index_of_None_iff index_of_append_none)
    with None n show ?thesis
      by (simp add: get_cell_def with_col_def)
  next
    case (Some j)
    then have "m \<in> set cs" "j < length cs"
      by (auto dest: index_of_Some_mem index_of_SomeD)
    then show ?thesis
      using Some n \<open>index_of n cs = None\<close> assms(1)
      by (simp add: get_cell_def set_cell_def with_col_def cell_at_def index_of_append_old
            nth_append)
  qed
next
  case (Some i)
  then have n: "n \<in> set cs" "cs ! i = n"
    by (auto dest: index_of_Some_mem index_of_SomeD)
  show ?thesis
  proof (cases "index_of m cs")
    case None
    with Some n show ?thesis
      by (simp add: get_cell_def set_cell_def with_col_def)
  next
    case j: (Some j)
    then have "cs ! j = m" by (auto dest: index_of_SomeD)
    with n assms(2) have "i \<noteq> j" by auto
    with Some j n show ?thesis
      by (simp add: get_cell_def set_cell_def with_col_def cell_at_def)
  qed
qed

section \<open>The stages, row by row\<close>

lemma required_mem:
  "required_cols \<subseteq> set cs \<Longrightarrow>
   ''InvoiceNo'' \<in> set cs \<and> ''InvoiceDate'' \<in> set cs \<and> ''CustomerID'' \<in> set cs \<and>
   ''Quantity'' \<in> set cs \<and> ''UnitPrice'' \<in> set cs"
  by (auto simp: required_cols_def)

lemma with_col_mem: "n \<in> set cs \<Longrightarrow> with_col cs n = cs"
  by (simp add: with_col_def)

lemma stage1:
  "rows (dropna ''CustomerID'' df) = filter (\<lambda>r. \<not> isna (get_cell (columns df) ''CustomerID'' r)) (rows df)
   \<and> columns (dropna ''CustomerID'' df) = columns df"
  by (simp add: dropna_def select_def)

lemma stages_1_5:
  assumes "required_cols \<subseteq> set (columns df)"
  defines "cs \<equiv> columns df" and "ctx \<equiv> date_context df"
  shows "columns (drop_unusable l df) = cs"
    and "rows (drop_unusable l df) = map (staged l ctx cs)
           (filter (\<lambda>r. \<not> isna (get_cell cs ''CustomerID'' r) \<and>
                        \<not> isna (get_cell cs ''InvoiceDate'' (parse_row l ctx cs r)) \<and>
                        \<not> is_cancel (get_cell cs ''InvoiceNo'' (staged l ctx cs r)))
              (rows df))"
proof -
  define df1 where "df1 = dropna ''CustomerID'' df"
  define df2 where "df2 = assign ''InvoiceDate''
     (\<lambda>r. to_datetime l (column df1 ''InvoiceDate'') (get_cell (columns df1) ''InvoiceDate'' r)) df1"
  define df3 where "df3 = dropna ''InvoiceDate'' df2"
  define df4 where "df4 = assign ''InvoiceNo''
     (\<lambda>r. StrV (astype_str l (get_cell (columns df3) ''InvoiceNo'' r))) df3"
  have d: "drop_unusable l df = select (\<lambda>r. \<not> is_cancel (get_cell (columns df4) ''InvoiceNo'' r)) df4"
    by (simp add: drop_unusable_def Let_def df1_def df2_def df3_def df4_def)
  note m = required_mem [OF assms(1)]
  have c1: "columns df1 = cs" by (simp add: df1_def cs_def dropna_def select_def)
  have c2: "columns df2 = cs" using m by (simp add: df2_def assign_def c1 with_col_mem cs_def)
  have c3: "columns df3 = cs" by (simp add: df3_def dropna_def select_def c2)
  have c4: "columns df4 = cs" using m by (simp add: df4_def assign_def c3 with_col_mem cs_def)
  show "columns (drop_unusable l df) = cs" by (simp add: d select_def c4)
  have r1: "rows df1 = filter (\<lambda>r. \<not> isna (get_cell cs ''CustomerID'' r)) (rows df)"
    by (simp add: df1_def cs_def dropna_def select_def)
  have x: "column df1 ''InvoiceDate'' = ctx"
    by (simp add: ctx_def date_context_def df1_def)
  have r2: "rows df2 = map (parse_row l ctx cs) (rows df1)"
    by (simp add: df2_def assign_def c1 x parse_row_def)
  have r3: "rows df3 = filter (\<lambda>r. \<not> isna (get_cell cs ''InvoiceDate'' r)) (rows df2)"
    by (simp add: df3_def dropna_def select_def c2)
  have r4: "rows df4 = map (text_row l cs) (rows df3)"
    by (simp add: df4_def assign_def c3 text_row_def)
  show "rows (drop_unusable l df) = map (staged l ctx cs)
           (filter (\<lambda>r. \<not> isna (get_cell cs ''CustomerID'' r) \<and>
                        \<not> isna (get_cell cs ''InvoiceDate'' (parse_row l ctx cs r)) \<and>
                        \<not> is_cancel (get_cell cs ''InvoiceNo'' (staged l ctx cs r)))
              (rows df))"
    by (simp add: d select_def c4 r4 r3 r2 r1 filter_map o_def staged_def conj_commute
          conj_left_commute)
qed

lemma clean_rows_char:
  assumes req: "required_cols \<subseteq> set (columns df)" and ok: "clean_rows l df = Inr out"
  shows "columns out = with_col (columns df) ''TotalPrice''"
    and "rows out = map (finish l (date_context df) (columns df))
                      (filter (keep l (date_context df) (columns df)) (rows df))"
    and "\<forall>r \<in> set (filter (keep l (date_context df) (columns df)) (rows df)).
           \<not> is_Inl (astype_int l (get_cell (columns df) ''CustomerID''
                                     (staged l (date_context df) (columns df) r)))"
proof -
  define cs where "cs = columns df"
  define ctx where "ctx = date_context df"
  define df5 where "df5 = drop_unusable l df"
  note m = required_mem [OF req]
  have c5: "columns df5 = cs"
    unfolding df5_def cs_def by (rule stages_1_5(1) [OF req])
  have r5: "rows df5 = map (staged l ctx cs)
           (filter (\<lambda>r. \<not> isna (get_cell cs ''CustomerID'' r) \<and>
                        \<not> isna (get_cell cs ''InvoiceDate'' (parse_row l ctx cs r)) \<and>
                        \<not> is_cancel (get_cell cs ''InvoiceNo'' (staged l ctx cs r)))
              (rows df))"
    unfolding df5_def cs_def ctx_def by (rule stages_1_5(2) [OF req])
  from ok obtain df6 df7 where s6: "sign_filter df5 = Inr df6"
    and s7: "cast_customer l df6 = Inr df7"
    and o: "out = assign ''TotalPrice''
                   (\<lambda>r. cell_mul (get_cell (columns df7) ''Quantity'' r)
                                  (get_cell (columns df7) ''UnitPrice'' r)) df7"
    unfolding clean_rows_def df5_def by (auto split: sum.splits)
  from s6 have c6: "columns df6 = cs"
    and r6: "rows df6 = filter (\<lambda>r. gt_zero (get_cell cs ''Quantity'' r) = Inr True \<and>
                                    gt_zero (get_cell cs ''UnitPrice'' r) = Inr True) (rows df5)"
    by (auto simp: sign_filter_def select_def c5 split: if_splits)
  from s7 have c7: "columns df7 = cs"
    and r7: "rows df7 = map (cast_row l cs) (rows df6)"
    and e7: "\<forall>r \<in> set (rows df6). \<not> is_Inl (astype_int l (get_cell cs ''CustomerID'' r))"
    using m by (auto simp: cast_customer_def assign_def c6 cast_row_def with_col_mem cs_def
        split: if_splits)
  have k: "rows df6 = map (staged l ctx cs) (filter (keep l ctx cs) (rows df))"
    unfolding r6 r5 filter_map filter_filter o_def
    by (intro arg_cong [where f = "map (staged l ctx cs)"] filter_cong refl)
       (auto simp: keep_def)
  show "columns out = with_col (columns df) ''TotalPrice''"
    by (simp add: o assign_def c7 cs_def)
  show "rows out = map (finish l (date_context df) (columns df))
                      (filter (keep l (date_context df) (columns df)) (rows df))"
    by (simp add: o assign_def c7 r7 k finish_def total_row_def o_def ctx_def cs_def)
  show "\<forall>r \<in> set (filter (keep l (date_context df) (columns df)) (rows df)).
           \<not> is_Inl (astype_int l (get_cell (columns df) ''CustomerID''
                                     (staged l (date_context df) (columns df) r)))"
    using e7 by (simp add: k ctx_def cs_def)
qed

lemma length_set_old:
  "n \<in> set cs \<Longrightarrow> length r = length cs \<Longrightarrow> length (set_cell cs n v r) = length cs"
  using length_set_cell [of r cs n v] by (simp add: with_col_mem)

lemma get_set_old_same:
  "n \<in> set cs \<Longrightarrow> length r = length cs \<Longrightarrow> get_cell cs n (set_cell cs n v r) = v"
  using get_set_same [of r cs n v] by (simp add: with_col_mem)

lemma get_set_old_other:
  "n \<in> set cs \<Longrightarrow> length r = length cs \<Longrightarrow> m \<noteq> n \<Longrightarrow>
   get_cell cs m (set_cell cs n v r) = get_cell cs m r"
  using get_set_other [of r cs m n v] by (simp add: with_col_mem)

lemmas set_old = length_set_old get_set_old_same get_set_old_other

lemma staged_fields:
  assumes "required_cols \<subseteq> set cs" and "length r = length cs"
  shows "length (staged l ctx cs r) = length cs"
    and "get_cell cs ''CustomerID'' (staged l ctx cs r) = get_cell cs ''CustomerID'' r"
    and "get_cell cs ''InvoiceDate'' (staged l ctx cs r) = to_datetime l ctx (get_cell cs ''InvoiceDate'' r)"
    and "get_cell cs ''InvoiceNo'' (staged l ctx cs r) = StrV (astype_str l (get_cell cs ''InvoiceNo'' r))"
    and "get_cell cs ''Quantity'' (staged l ctx cs r) = get_cell cs ''Quantity'' r"
    and "get_cell cs ''UnitPrice'' (staged l ctx cs r) = get_cell cs ''UnitPrice'' r"
    and "get_cell cs ''InvoiceDate'' (parse_row l ctx cs r) = to_datetime l ctx (get_cell cs ''InvoiceDate'' r)"
  using required_mem [OF assms(1)] assms(2)
  by (simp_all add: staged_def text_row_def parse_row_def set_old)

lemma keep_iff:
  assumes "required_cols \<subseteq> set cs" and "length r = length cs"
  shows "keep l ctx cs r \<longleftrightarrow>
     \<not> isna (get_cell cs ''CustomerID'' r) \<and>
     \<not> isna (to_datetime l ctx (get_cell cs ''InvoiceDate'' r)) \<and>
     \<not> startswith_C (astype_str l (get_cell cs ''InvoiceNo'' r)) \<and>
     gt_zero (get_cell cs ''Quantity'' r) = Inr True \<and>
     gt_zero (get_cell cs ''UnitPrice'' r) = Inr True"
  by (simp add: keep_def staged_fields [OF assms] is_cancel_def)

lemma finish_fields:
  fixes l ctx cs r
  defines "r' \<equiv> finish l ctx cs r" and "cs' \<equiv> with_col cs ''TotalPrice''"
  assumes "required_cols \<subseteq> set cs" and "length r = length cs"
  shows "length r' = length cs'"
    and "get_cell cs' ''CustomerID'' r' =
           (case astype_int l (get_cell cs ''CustomerID'' r) of Inr c \<Rightarrow> c | Inl _ \<Rightarrow> NA)"
    and "get_cell cs' ''InvoiceDate'' r' = to_datetime l ctx (get_cell cs ''InvoiceDate'' r)"
    and "get_cell cs' ''InvoiceNo'' r' = StrV (astype_str l (get_cell cs ''InvoiceNo'' r))"
    and "get_cell cs' ''Quantity'' r' = get_cell cs ''Quantity'' r"
    and "get_cell cs' ''UnitPrice'' r' = get_cell cs ''UnitPrice'' r"
    and "get_cell cs' ''TotalPrice'' r' =
           cell_mul (get_cell cs ''Quantity'' r) (get_cell cs ''UnitPrice'' r)"
proof -
  note req = assms(3) and len = assms(4)
  note m = required_mem [OF req]
  define s where "s = cast_row l cs (staged l ctx cs r)"
  have ls: "length s = length cs"
    using m by (simp add: s_def cast_row_def set_old staged_fields [OF req len])
  have s: "get_cell cs ''CustomerID'' s =
             (case astype_int l (get_cell cs ''CustomerID'' r) of Inr c \<Rightarrow> c | Inl _ \<Rightarrow> NA)"
    "get_cell cs ''InvoiceDate'' s = to_datetime l ctx (get_cell cs ''InvoiceDate'' r)"
    "get_cell cs ''InvoiceNo'' s = StrV (astype_str l (get_cell cs ''InvoiceNo'' r))"
    "get_cell cs ''Quantity'' s = get_cell cs ''Quantity'' r"
    "get_cell cs ''UnitPrice'' s = get_cell cs ''UnitPrice'' r"
    using m by (simp_all add: s_def cast_row_def set_old staged_fields [OF req len])
  have r': "r' = set_cell cs ''TotalPrice''
                   (cell_mul (get_cell cs ''Quantity'' s) (get_cell cs ''UnitPrice'' s)) s"
    by (simp add: r'_def finish_def total_row_def s_def)
  show "length r' = length cs'"
    unfolding r' cs'_def by (rule length_set_cell [OF ls])
  show "get_cell cs' ''TotalPrice'' r' =
           cell_mul (get_cell cs ''Quantity'' r) (get_cell cs ''UnitPrice'' r)"
    unfolding r' cs'_def by (simp add: get_set_same [OF ls] s)
  show "get_cell cs' ''CustomerID'' r' =
           (case astype_int l (get_cell cs ''CustomerID'' r) of Inr c \<Rightarrow> c | Inl _ \<Rightarrow> NA)"
    unfolding r' cs'_def by (simp add: get_set_other [OF ls] s)
  show "get_cell cs' ''InvoiceDate'' r' = to_datetime l ctx (get_cell cs ''InvoiceDate'' r)"
    unfolding r' cs'_def by (simp add: get_set_other [OF ls] s)
  show "get_cell cs' ''InvoiceNo'' r' = StrV (astype_str l (get_cell cs ''InvoiceNo'' r))"
    unfolding r' cs'_def by (simp add: get_set_other [OF ls] s)
  show "get_cell cs' ''Quantity'' r' = get_cell cs ''Quantity'' r"
    unfolding r' cs'_def by (simp add: get_set_other [OF ls] s)
  show "get_cell cs' ''UnitPrice'' r' = get_cell cs ''UnitPrice'' r"
    unfolding r' cs'_def by (simp add: get_set_other [OF ls] s)
qed





section \<open>The cleaned frame\<close>

lemma clean_accepted:
  assumes "snd (clean_transactions l raw) = Inr out"
  defines "df \<equiv> \<lparr>columns = map (rename \<circ> strip) (columns raw), rows = rows raw\<rparr>"
  shows "required_cols \<subseteq> set (columns df)" and "clean_rows l df = Inr out"
  using assms(1) unfolding snd_clean_transactions df_def
  by (auto split: if_splits)




lemma clean_length_le:
  assumes ok: "snd (clean_transactions l raw) = Inr out"
  shows "length (rows out) \<le> length (rows raw)"
proof -
  define df where "df = \<lparr>columns = map (rename \<circ> strip) (columns raw), rows = rows raw\<rparr>"
  have "rows out = map (finish l (date_context df) (columns df))
                      (filter (keep l (date_context df) (columns df)) (rows df))"
    using clean_accepted [OF ok] unfolding df_def by (rule clean_rows_char(2))
  then show ?thesis by (simp add: df_def)
qed

text \<open>
  Claim C10. In a well-formed frame that is cleaned without an error, a row with a customer
  identifier, a date that parses, a positive quantity and a positive unit price, whose
  invoice identifier as a text starts with the lower-case \<open>c\<close>, or with anything other
  than the upper-case \<open>C\<close>, is among the cleaned rows with that text.
\<close>

theorem lowercase_c_survives:
  assumes wf: "well_formed raw" and ok: "snd (clean_transactions l raw) = Inr out"
  defines "cs \<equiv> map (rename \<circ> strip) (columns raw)"
  assumes r: "r \<in> set (rows raw)"
    and cust: "\<not> isna (get_cell cs ''CustomerID'' r)"
    and date: "to_datetime l (date_context \<lparr>columns = cs, rows = rows raw\<rparr>)
                 (get_cell cs ''InvoiceDate'' r) = TimeV t"
    and inv: "astype_str l (get_cell cs ''InvoiceNo'' r) = s"
    and s: "(\<exists>rest. s = CHR ''c'' # rest) \<or> \<not> startswith_C s"
    and q: "get_cell cs ''Quantity'' r = NumV q" "num_gt0 q"
    and p: "get_cell cs ''UnitPrice'' r = NumV p" "num_gt0 p"
  shows "\<exists>r' \<in> set (rows out).
           get_cell (columns out) ''InvoiceNo'' r' = StrV s \<and>
           get_cell (columns out) ''InvoiceDate'' r' = TimeV t \<and>
           get_cell (columns out) ''Quantity'' r' = NumV q \<and>
           get_cell (columns out) ''UnitPrice'' r' = NumV p \<and>
           astype_int l (get_cell cs ''CustomerID'' r) = Inr (get_cell (columns out) ''CustomerID'' r')"
proof -
  define df where "df = \<lparr>columns = cs, rows = rows raw\<rparr>"
  define ctx where "ctx = date_context df"
  have req: "required_cols \<subseteq> set cs" and cr: "clean_rows l df = Inr out"
    using clean_accepted [OF ok] by (simp_all add: df_def cs_def)
  have len: "length r = length cs"
    using wf r by (simp add: well_formed_def rect_def cs_def)
  note ch = clean_rows_char [of df l out, unfolded df_def, simplified, folded df_def ctx_def, OF req cr]
  from s have ns: "\<not> startswith_C s"
    by (auto simp: startswith_C_def)
  have k: "keep l ctx cs r"
    using cust date inv ns q p
    by (simp add: keep_iff [OF req len] ctx_def df_def isna_def gt_zero_def)
  then have mem: "finish l ctx cs r \<in> set (rows out)"
    using r by (simp add: ch(2))
  have "\<not> is_Inl (astype_int l (get_cell cs ''CustomerID'' r))"
    using ch(3) k r staged_fields(2) [OF req len, of l ctx] by auto
  then obtain c where c: "astype_int l (get_cell cs ''CustomerID'' r) = Inr c"
    by (cases "astype_int l (get_cell cs ''CustomerID'' r)") (simp_all add: is_Inl_def)
  show ?thesis
    using date inv q p c
    by (intro bexI [OF _ mem]) (simp add: ch(1) finish_fields [OF req len] ctx_def df_def)
qed

section \<open>The guard of the aggregation\<close>

lemma replace_inf_good:
  "good_measures (replace_inf r) \<longleftrightarrow> good_measures r"
  "good_measures r \<Longrightarrow> replace_inf r = r"
  by (auto simp: good_measures_def replace_inf_def split: number.splits)

lemma sanity_guard: "sanity (guard rs) = filter good_measures rs"
proof (induction rs)
  case Nil
  then show ?case by (simp add: sanity_def guard_def)
next
  case (Cons r rs)
  have "(Recency (replace_inf r) \<noteq> None \<and> Monetary (replace_inf r) \<noteq> NaN \<and>
         0 < Frequency (replace_inf r) \<and> num_gt0 (Monetary (replace_inf r)) \<and>
         (case Recency (replace_inf r) of None \<Rightarrow> False | Some d \<Rightarrow> 0 \<le> d)) = good_measures r"
    by (cases "Monetary r"; cases "Recency r")
       (auto simp: good_measures_def replace_inf_def)
  with Cons show ?case
    using replace_inf_good(2) [of r]
    by (auto simp: sanity_def guard_def)
qed

lemma build_rfm_iff:
  "build_rfm df = Inr out \<longleftrightarrow>
     {''InvoiceDate'', ''CustomerID'', ''InvoiceNo'', ''TotalPrice''} \<subseteq> set (columns df) \<and>
     dtypes_ok df \<and> out = filter good_measures (aggregate df)"
  by (auto simp: build_rfm_def sanity_guard split: list.splits if_splits)


section \<open>Aggregation of a cleaned frame\<close>




lemma key_of_Some: "key_of c = Some k \<longleftrightarrow> c = NumV (Fin k)"
  by (auto simp: key_of_def split: cell.splits number.splits)

lemma set_map_filter_key:
  "set (List.map_filter key_of cs) = {k. NumV (Fin k) \<in> set cs}"
proof (induction cs)
  case Nil
  then show ?case by simp
next
  case (Cons c cs)
  show ?case
  proof (cases "key_of c")
    case None
    then have "\<And>k. c \<noteq> NumV (Fin k)" by (auto simp: key_of_def)
    with None Cons show ?thesis by auto
  next
    case (Some k)
    then have "c = NumV (Fin k)" by (simp add: key_of_Some)
    with Some Cons show ?thesis by auto
  qed
qed

lemma set_customer_keys:
  "set (customer_keys df) = {k. NumV (Fin k) \<in> set (column df ''CustomerID'')}"
  by (simp add: customer_keys_def set_map_filter_key)

lemma length_customer_keys:
  "length (customer_keys df) \<le> card (set (column df ''CustomerID''))"
proof -
  have "length (customer_keys df) = card (set (customer_keys df))"
    by (simp add: customer_keys_def length_remdups_card_conv)
  also have "set (customer_keys df) = (\<lambda>c. finite_value c) ` {c \<in> set (column df ''CustomerID''). is_finite c}"
    unfolding set_customer_keys
  proof (intro set_eqI iffI)
    fix k assume "k \<in> {k. NumV (Fin k) \<in> set (column df ''CustomerID'')}"
    then have "NumV (Fin k) \<in> {c \<in> set (column df ''CustomerID''). is_finite c}"
      and "k = finite_value (NumV (Fin k))"
      by (simp_all add: is_finite_def finite_value_def)
    then show "k \<in> finite_value ` {c \<in> set (column df ''CustomerID''). is_finite c}"
      by (rule rev_image_eqI)
  next
    fix k assume "k \<in> finite_value ` {c \<in> set (column df ''CustomerID''). is_finite c}"
    then obtain c where "c \<in> set (column df ''CustomerID'')" "is_finite c" "k = finite_value c"
      by auto
    moreover from \<open>is_finite c\<close> obtain q where "c = NumV (Fin q)"
      by (auto simp: is_finite_def split: cell.splits number.splits)
    ultimately show "k \<in> {k. NumV (Fin k) \<in> set (column df ''CustomerID'')}"
      by (simp add: finite_value_def)
  qed
  also have "card \<dots> \<le> card {c \<in> set (column df ''CustomerID''). is_finite c}"
    by (rule card_image_le) simp
  also have "\<dots> \<le> card (set (column df ''CustomerID''))"
    by (rule card_mono) auto
  finally show ?thesis .
qed





















text \<open>
  Claim C8. A frame cleaned without an error has at most as many rows as the raw frame, and
  what \<open>build_rfm\<close> returns has at most as many rows as its argument has distinct customer
  identifiers.
\<close>

theorem no_stage_adds_rows:
  "(snd (clean_transactions l raw) = Inr ct \<longrightarrow> length (rows ct) \<le> length (rows raw)) \<and>
   (build_rfm df = Inr rfm \<longrightarrow> length rfm \<le> card (set (column df ''CustomerID'')))"
proof (intro conjI impI)
  assume "snd (clean_transactions l raw) = Inr ct"
  then show "length (rows ct) \<le> length (rows raw)" by (rule clean_length_le)
next
  assume "build_rfm df = Inr rfm"
  then have "rfm = filter good_measures (aggregate df)"
    by (simp add: build_rfm_iff)
  then have "length rfm \<le> length (aggregate df)" by simp
  also have "\<dots> = length (customer_keys df)" by (simp add: aggregate_def)
  also have "\<dots> \<le> card (set (column df ''CustomerID''))" by (rule length_customer_keys)
  finally show "length rfm \<le> card (set (column df ''CustomerID''))" .
qed

section \<open>The examples evaluated\<close>


lemma scenario_cleaned: "snd (clean_transactions strict_lib scenario_raw) = Inr scenario_clean"
  by code_simp



lemma lowercase_well_formed: "well_formed lowercase_raw"
  by code_simp

lemma lowercase_cleaned: "snd (clean_transactions strict_lib lowercase_raw) = Inr lowercase_clean"
  by code_simp

theorem lowercase_c_survives_witness:
  "\<exists>r' \<in> set (rows lowercase_clean).
      get_cell (columns lowercase_clean) ''InvoiceNo'' r' = StrV ''c536367'' \<and>
      get_cell (columns lowercase_clean) ''InvoiceDate'' r' = TimeV 1291161600000000000 \<and>
      get_cell (columns lowercase_clean) ''Quantity'' r' = NumV (Fin 6) \<and>
      get_cell (columns lowercase_clean) ''UnitPrice'' r' = NumV (Fin 2) \<and>
      astype_int strict_lib (NumV (Fin 17850)) = Inr (get_cell (columns lowercase_clean) ''CustomerID'' r')"
proof -
  let ?r = "[StrV ''c536367'', TimeV 1291161600000000000, NumV (Fin 17850), NumV (Fin 6), NumV (Fin 2)]"
  let ?cs = "map (rename \<circ> strip) (columns lowercase_raw)"
  have cs: "?cs = [''InvoiceNo'', ''InvoiceDate'', ''CustomerID'', ''Quantity'', ''UnitPrice'']"
    by code_simp
  have g: "get_cell ?cs ''CustomerID'' ?r = NumV (Fin 17850)"
    "get_cell ?cs ''InvoiceDate'' ?r = TimeV 1291161600000000000"
    "get_cell ?cs ''InvoiceNo'' ?r = StrV ''c536367''"
    "get_cell ?cs ''Quantity'' ?r = NumV (Fin 6)"
    "get_cell ?cs ''UnitPrice'' ?r = NumV (Fin 2)"
    unfolding cs by (simp_all add: get_cell_def cell_at_def)
  have "\<exists>r' \<in> set (rows lowercase_clean).
      get_cell (columns lowercase_clean) ''InvoiceNo'' r' = StrV ''c536367'' \<and>
      get_cell (columns lowercase_clean) ''InvoiceDate'' r' = TimeV 1291161600000000000 \<and>
      get_cell (columns lowercase_clean) ''Quantity'' r' = NumV (Fin 6) \<and>
      get_cell (columns lowercase_clean) ''UnitPrice'' r' = NumV (Fin 2) \<and>
      astype_int strict_lib (get_cell ?cs ''CustomerID'' ?r) =
        Inr (get_cell (columns lowercase_clean) ''CustomerID'' r')"
  proof (rule lowercase_c_survives [OF lowercase_well_formed lowercase_cleaned])
    show "?r \<in> set (rows lowercase_raw)" by (simp add: lowercase_raw_def)
    show "\<not> isna (get_cell ?cs ''CustomerID'' ?r)" by (simp add: g isna_def)
    show "to_datetime strict_lib (date_context \<lparr>columns = ?cs, rows = rows lowercase_raw\<rparr>)
            (get_cell ?cs ''InvoiceDate'' ?r) = TimeV 1291161600000000000"
      by (simp add: g to_datetime_def)
    show "astype_str strict_lib (get_cell ?cs ''InvoiceNo'' ?r) = ''c536367''"
      by (simp add: g astype_str_def)
    show "(\<exists>rest. ''c536367'' = CHR ''c'' # rest) \<or> \<not> startswith_C ''c536367''" by simp
    show "get_cell ?cs ''Quantity'' ?r = NumV (Fin 6)" by (rule g)
    show "num_gt0 (Fin 6)" by simp
    show "get_cell ?cs ''UnitPrice'' ?r = NumV (Fin 2)" by (rule g)
    show "num_gt0 (Fin 2)" by simp
  qed
  then show ?thesis by (simp only: g)
qed






lemma example_rfm:
  "build_rfm example_clean =
     Inr [\<lparr>CustomerID = 1, Recency = Some 3, Frequency = 2, Monetary = Fin 7\<rparr>,
          \<lparr>CustomerID = 2, Recency = Some 1, Frequency = 1, Monetary = Fin 11\<rparr>]"
  by code_simp

lemma scenario_rfm:
  "build_rfm scenario_clean =
     Inr [\<lparr>CustomerID = 17850, Recency = Some 1, Frequency = 1, Monetary = Fin (318 / 10)\<rparr>]"
  by code_simp




theorem no_stage_adds_rows_witness:
  "snd (clean_transactions strict_lib scenario_raw) = Inr scenario_clean \<and>
   length (rows scenario_clean) \<le> length (rows scenario_raw) \<and>
   length (rows scenario_clean) = 2 \<and> length (rows scenario_raw) = 3 \<and>
   build_rfm scenario_clean =
     Inr [\<lparr>CustomerID = 17850, Recency = Some 1, Frequency = 1, Monetary = Fin (318 / 10)\<rparr>] \<and>
   length [\<lparr>CustomerID = 17850, Recency = Some 1, Frequency = 1, Monetary = Fin (318 / 10)\<rparr>]
     \<le> card (set (column scenario_clean ''CustomerID''))"
  using scenario_cleaned scenario_rfm
    no_stage_adds_rows [of strict_lib scenario_raw scenario_clean scenario_clean
      "[\<lparr>CustomerID = 17850, Recency = Some 1, Frequency = 1, Monetary = Fin (318 / 10)\<rparr>]"]
  by (simp add: scenario_raw_def scenario_clean_def)

end
